theory Spec2Isabelle
  imports Main
begin

section \<open>Values handled by the component\<close>

text \<open>
  \<^verbatim>\<open>response.json()\<close> hands the component whatever value the body denotes, and the
  component stores it unchecked (the interface \<^verbatim>\<open>GithubUser\<close> is erased at run time).
  The values are therefore the JSON values, together with \<^verbatim>\<open>undefined\<close>, which reading
  a missing property yields. Numbers are only ever tested for being zero, so integers
  stand for them.
\<close>

datatype jsval =
    JUndefined
  | JNull
  | JBool bool
  | JNum int
  | JStr string
  | JArr "jsval list"
  | JObj "(string \<times> jsval) list"

text \<open>The test that \<^verbatim>\<open>user && (...)\<close> performs on its left operand.\<close>

fun truthy :: "jsval \<Rightarrow> bool" where
  "truthy JUndefined = False"
| "truthy JNull = False"
| "truthy (JBool b) = b"
| "truthy (JNum n) = (n \<noteq> 0)"
| "truthy (JStr s) = (s \<noteq> [])"
| "truthy (JArr vs) = True"
| "truthy (JObj fs) = True"

text \<open>
  Property access \<^verbatim>\<open>v.k\<close> for the keys the component reads (\<^verbatim>\<open>name\<close>, \<^verbatim>\<open>bio\<close>,
  \<^verbatim>\<open>avatar_url\<close>, \<^verbatim>\<open>login\<close>, \<^verbatim>\<open>html_url\<close>): an object yields the stored value or
  \<^verbatim>\<open>undefined\<close>; no array, string, number or boolean has a property of these names.
  The component reads a property only behind the truthiness test, so the access never
  meets \<^verbatim>\<open>null\<close> or \<^verbatim>\<open>undefined\<close>, where it would throw.
\<close>

fun get_prop :: "jsval \<Rightarrow> string \<Rightarrow> jsval" where
  "get_prop (JObj fs) k = (case map_of fs k of Some v \<Rightarrow> v | None \<Rightarrow> JUndefined)"
| "get_prop v k = JUndefined"

text \<open>The value caught by \<^verbatim>\<open>catch (error)\<close>: \<^verbatim>\<open>fetch\<close> rejects with a
  \<^verbatim>\<open>TypeError\<close> when the network fails, \<^verbatim>\<open>response.json()\<close> with a
  \<^verbatim>\<open>SyntaxError\<close> when the body does not parse.\<close>

datatype js_error = TypeError string | SyntaxError string

section \<open>The network\<close>

text \<open>
  What the component hands to \<^verbatim>\<open>fetch\<close>: the resource, a string, and the optional
  second argument with the method and the headers the caller sets. The component never
  holds the request itself; the platform makes it from the call.
\<close>

record fetch_init =
  http_method :: string
  headers :: "(string \<times> string) list"

record fetch_call =
  resource :: string
  options :: "fetch_init option"

text \<open>The method and the caller's headers of a call: without the second argument the
  method is GET and the caller sets no header.\<close>

definition call_method :: "fetch_call \<Rightarrow> string" where
  "call_method c = (case options c of None \<Rightarrow> ''GET'' | Some i \<Rightarrow> http_method i)"

definition call_headers :: "fetch_call \<Rightarrow> (string \<times> string) list" where
  "call_headers c = (case options c of None \<Rightarrow> [] | Some i \<Rightarrow> headers i)"

text \<open>An address has a query part when a question mark stands in it before any hash
  sign (the hash sign starts the fragment, which is never sent).\<close>

definition has_query :: "string \<Rightarrow> bool" where
  "has_query u = (CHR ''?'' \<in> set (takeWhile (\<lambda>c. c \<noteq> CHR ''#'') u))"

text \<open>A response carries its status code and what \<^verbatim>\<open>response.json()\<close> settles to.\<close>

record response =
  status :: nat
  json :: "js_error + jsval"

datatype fetch_outcome = Rejected js_error | Resolved response

section \<open>The component \<^verbatim>\<open>App\<close>\<close>

text \<open>
  The three \<^verbatim>\<open>useState\<close> slots, and the two things the handlers touch outside them:
  the console and the calls of \<^verbatim>\<open>fetch\<close> that are not yet settled.
\<close>

record app_state =
  userName :: string
  user :: jsval
  loading :: bool
  console :: "js_error list"
  pending :: "fetch_call list"

definition initial :: app_state where
  "initial = \<lparr>userName = [], user = JNull, loading = False, console = [], pending = []\<rparr>"

definition setUserName :: "string \<Rightarrow> app_state \<Rightarrow> app_state" where
  "setUserName v s = s\<lparr>userName := v\<rparr>"

definition setUser :: "jsval \<Rightarrow> app_state \<Rightarrow> app_state" where
  "setUser v s = s\<lparr>user := v\<rparr>"

definition setLoading :: "bool \<Rightarrow> app_state \<Rightarrow> app_state" where
  "setLoading b s = s\<lparr>loading := b\<rparr>"

definition console_error :: "js_error \<Rightarrow> app_state \<Rightarrow> app_state" where
  "console_error e s = s\<lparr>console := console s @ [e]\<rparr>"

text \<open>\<^verbatim>\<open>handleChange\<close>; the argument is \<^verbatim>\<open>event.target.value\<close>.\<close>

definition handleChange :: "string \<Rightarrow> app_state \<Rightarrow> app_state" where
  "handleChange v s = setUserName v s"

text \<open>
  \<^verbatim>\<open>handleSubmit\<close> runs in two parts, split where it awaits. Up to the first
  \<^verbatim>\<open>await\<close> it sets the flag and issues the request (\<^verbatim>\<open>event.preventDefault()\<close>
  acts on the event only and leaves no trace in the state). The \<^verbatim>\<open>userName\<close> it
  reads is the one of the render that bound the handler, which is the current one.
\<close>

definition request_url :: "string \<Rightarrow> string" where
  "request_url q = ''https://api.github.com/users/'' @ q"

definition handleSubmit_begin :: "app_state \<Rightarrow> app_state" where
  "handleSubmit_begin s =
     (let s1 = setLoading True s
      in s1\<lparr>pending := pending s1 @
            [\<lparr>resource = request_url (userName s1), options = None\<rparr>]\<rparr>)"

text \<open>
  The rest of the \<^verbatim>\<open>try\<close> block, given how the request settles: a rejected
  \<^verbatim>\<open>fetch\<close> or a rejected \<^verbatim>\<open>response.json()\<close> leaves the block with the error,
  before \<^verbatim>\<open>setUser\<close>. The status of the response is not looked at.
\<close>

definition handleSubmit_try :: "fetch_outcome \<Rightarrow> app_state \<Rightarrow> js_error + app_state" where
  "handleSubmit_try outcome s =
     (case outcome of
        Rejected e \<Rightarrow> Inl e
      | Resolved r \<Rightarrow>
          (case json r of
             Inl e \<Rightarrow> Inl e
           | Inr data \<Rightarrow> Inr (setLoading False (setUser data s))))"

definition handleSubmit_settle :: "fetch_outcome \<Rightarrow> app_state \<Rightarrow> app_state" where
  "handleSubmit_settle outcome s =
     (case handleSubmit_try outcome s of
        Inr s' \<Rightarrow> s'
      | Inl error \<Rightarrow> console_error error (setLoading False s))"

text \<open>A whole submission whose request settles with \<open>outcome\<close>: the request leaves the
  pending ones, and the handler resumes.\<close>

definition handleSubmit :: "fetch_outcome \<Rightarrow> app_state \<Rightarrow> app_state" where
  "handleSubmit outcome s =
     (let s1 = handleSubmit_begin s
      in handleSubmit_settle outcome (s1\<lparr>pending := butlast (pending s1)\<rparr>))"

section \<open>What the component renders\<close>

text \<open>
  The element tree a component returns. A child is an element, a literal text, or a
  value embedded with braces; an attribute holds a value or one of the two handlers.
\<close>

datatype handler = HandleChange | HandleSubmit

datatype jsx_prop = Attr string jsval | On string handler

datatype vnode =
    Element string "jsx_prop list" "vnode list"
  | Text string
  | Expr jsval

text \<open>The function body of \<^verbatim>\<open>App\<close> after the hooks: the early return while loading,
  then the form and, behind \<^verbatim>\<open>user &&\<close>, the result. When \<^verbatim>\<open>user\<close> is not truthy
  the expression \<^verbatim>\<open>user && (...)\<close> is \<^verbatim>\<open>user\<close> itself.\<close>

definition App :: "app_state \<Rightarrow> vnode" where
  "App s =
     (if loading s then Element ''h1'' [] [Text ''Loading...'']
      else
        Element ''div'' []
          [Element ''form'' [On ''onSubmit'' HandleSubmit]
             [Element ''input''
                [Attr ''type'' (JStr ''text''),
                 Attr ''placeholder'' (JStr ''Enter username''),
                 Attr ''value'' (JStr (userName s)),
                 On ''onChange'' HandleChange] [],
              Element ''button'' [] [Text ''Search'']],
           (if truthy (user s) then
              Element ''div'' []
                [Element ''h1'' [] [Expr (get_prop (user s) ''name'')],
                 Element ''p'' [] [Expr (get_prop (user s) ''bio'')],
                 Element ''img''
                   [Attr ''src'' (get_prop (user s) ''avatar_url''),
                    Attr ''alt'' (JStr [])] []]
            else Expr (user s))])"


text \<open>Reading a tree, in document order: the tags of its elements, the attribute lists
  of the elements of one tag, the embedded values, the literal texts and the handlers
  bound.\<close>

fun tags :: "vnode \<Rightarrow> string list" where
  "tags (Element t ps cs) = t # concat (map tags cs)"
| "tags (Text x) = []"
| "tags (Expr v) = []"

fun props_of :: "string \<Rightarrow> vnode \<Rightarrow> jsx_prop list list" where
  "props_of t (Element t' ps cs) =
     (if t' = t then [ps] else []) @ concat (map (props_of t) cs)"
| "props_of t (Text x) = []"
| "props_of t (Expr v) = []"

fun exprs :: "vnode \<Rightarrow> jsval list" where
  "exprs (Element t ps cs) = concat (map exprs cs)"
| "exprs (Text x) = []"
| "exprs (Expr v) = [v]"

fun texts :: "vnode \<Rightarrow> string list" where
  "texts (Element t ps cs) = concat (map texts cs)"
| "texts (Text x) = [x]"
| "texts (Expr v) = []"

fun bound :: "jsx_prop list \<Rightarrow> handler list" where
  "bound [] = []"
| "bound (Attr k v # ps) = bound ps"
| "bound (On k h # ps) = h # bound ps"

fun handlers :: "vnode \<Rightarrow> handler list" where
  "handlers (Element t ps cs) = bound ps @ concat (map handlers cs)"
| "handlers (Text x) = []"
| "handlers (Expr v) = []"

section \<open>The component as a machine\<close>






text \<open>The handler resuming after the root is gone: the setters do nothing any more,
  the \<^verbatim>\<open>catch\<close> block still logs.\<close>

definition settle_unmounted :: "fetch_outcome \<Rightarrow> app_state \<Rightarrow> app_state" where
  "settle_unmounted outcome s =
     (case handleSubmit_try outcome s of
        Inr s' \<Rightarrow> s
      | Inl error \<Rightarrow> console_error error s)"




datatype phase = Idle | Loading | Gone



section \<open>Properties\<close>

text \<open>
  C8. \<^verbatim>\<open>handleChange\<close> replaces the query by the new text whatever both are: the new
  text is stored as it is (nothing is checked, nothing is cut off), the handler is total
  (it has no error result), and no other slot changes.
\<close>

theorem C8_handleChange_replaces:
  "userName (handleChange v s) = v
   \<and> handleChange v s = s\<lparr>userName := v\<rparr>
   \<and> user (handleChange v s) = user s
   \<and> loading (handleChange v s) = loading s
   \<and> length (userName (handleChange v s)) = length v"
  by (simp add: handleChange_def setUserName_def)

lemmas handler_defs =
  handleSubmit_def handleSubmit_begin_def handleSubmit_settle_def handleSubmit_try_def
  setLoading_def setUser_def setUserName_def console_error_def handleChange_def
  request_url_def Let_def

text \<open>
  C1. A submission whose request fails on the network (\<^verbatim>\<open>fetch\<close> rejects), or whose
  response body does not parse (\<^verbatim>\<open>response.json()\<close> rejects, whatever the status),
  ends in the \<^verbatim>\<open>catch\<close> block: the error is appended to the console, the loading
  flag is false, and the stored user is the one from before the submission. The same
  holds of the resumed handler alone, from whatever state it resumes in.
\<close>

theorem C1_failure_reported_flag_cleared_user_kept:
  "console (handleSubmit (Rejected e) s) = console s @ [e]
   \<and> loading (handleSubmit (Rejected e) s) = False
   \<and> user (handleSubmit (Rejected e) s) = user s
   \<and> console (handleSubmit (Resolved \<lparr>status = st, json = Inl e\<rparr>) s) = console s @ [e]
   \<and> loading (handleSubmit (Resolved \<lparr>status = st, json = Inl e\<rparr>) s) = False
   \<and> user (handleSubmit (Resolved \<lparr>status = st, json = Inl e\<rparr>) s) = user s
   \<and> handleSubmit_settle (Rejected e) s = s\<lparr>loading := False, console := console s @ [e]\<rparr>
   \<and> handleSubmit_settle (Resolved \<lparr>status = st, json = Inl e\<rparr>) s =
       s\<lparr>loading := False, console := console s @ [e]\<rparr>"
  by (simp add: handler_defs)

text \<open>
  C2. A submission whose request succeeds with a body that parses to \<open>data\<close> stores
  exactly \<open>data\<close> as the user, whatever value it is, and ends with the loading flag
  false; nothing is logged. In particular the query \<^verbatim>\<open>octocat\<close>, answered with the
  record of login \<^verbatim>\<open>octocat\<close>, avatar \<^verbatim>\<open>u\<close>, page \<^verbatim>\<open>h\<close> and bio \<^verbatim>\<open>b\<close>,
  leaves that record stored and the flag false.
\<close>

theorem C2_success_stores_parsed_value:
  "user (handleSubmit (Resolved \<lparr>status = st, json = Inr data\<rparr>) s) = data
   \<and> loading (handleSubmit (Resolved \<lparr>status = st, json = Inr data\<rparr>) s) = False
   \<and> console (handleSubmit (Resolved \<lparr>status = st, json = Inr data\<rparr>) s) = console s
   \<and> user (handleSubmit
        (Resolved \<lparr>status = 200, json = Inr (JObj
           [(''login'', JStr ''octocat''), (''avatar_url'', JStr ''u''),
            (''html_url'', JStr ''h''), (''bio'', JStr ''b'')])\<rparr>)
        (handleChange ''octocat'' initial))
       = JObj [(''login'', JStr ''octocat''), (''avatar_url'', JStr ''u''),
               (''html_url'', JStr ''h''), (''bio'', JStr ''b'')]
   \<and> loading (handleSubmit
        (Resolved \<lparr>status = 200, json = Inr (JObj
           [(''login'', JStr ''octocat''), (''avatar_url'', JStr ''u''),
            (''html_url'', JStr ''h''), (''bio'', JStr ''b'')])\<rparr>)
        (handleChange ''octocat'' initial))
       = False"
  by (simp add: handler_defs)

text \<open>
  C3, as the specification states it, names the host \<^verbatim>\<open>api.example.com\<close> and
  promises, for every query, an address with no query parameters. The component asks
  \<^verbatim>\<open>api.github.com\<close>: for the query \<^verbatim>\<open>octocat\<close> the address is not
  \<^verbatim>\<open>https://api.example.com/users/octocat\<close>. And the query \<^verbatim>\<open>x?per_page=1\<close> gives
  an address with a query part.
\<close>

theorem C3_host_counterexample:
  "resource (last (pending (handleSubmit_begin (handleChange ''octocat'' initial))))
     \<noteq> ''https://api.example.com/users/octocat''
   \<and> has_query (resource (last (pending
        (handleSubmit_begin (handleChange ''x?per_page=1'' initial)))))"
  by (simp add: handler_defs initial_def has_query_def)

text \<open>
  C3, amended. For every query, submitting calls \<^verbatim>\<open>fetch\<close> exactly once, with one
  argument: the string \<^verbatim>\<open>https://api.github.com/users/\<close> followed by the query as
  it stands; the component encodes nothing and appends nothing. There is no second
  argument, so the request is a GET and the component sets no header, none for
  authentication either. The component adds no query parameter: the address has a
  query part exactly when the query itself has one. What the platform then makes of the
  string when it parses it is not the component's doing and is not stated.
\<close>

theorem C3_request_issued:
  "pending (handleSubmit_begin s) =
     pending s @ [\<lparr>resource = ''https://api.github.com/users/'' @ userName s,
                   options = None\<rparr>]
   \<and> call_method (last (pending (handleSubmit_begin s))) = ''GET''
   \<and> call_headers (last (pending (handleSubmit_begin s))) = []
   \<and> has_query (resource (last (pending (handleSubmit_begin s)))) = has_query (userName s)"
  by (simp add: handler_defs call_method_def call_headers_def has_query_def)

text \<open>
  C9. The handler never looks at the status: a response of any status whose body parses
  takes the success path. A 404 whose body is an error object overwrites the stored user
  with that object and clears the loading flag, and nothing is logged; the user stored
  before is gone.
\<close>

theorem C9_status_ignored:
  "handleSubmit_try (Resolved \<lparr>status = st, json = Inr data\<rparr>) s =
     Inr (s\<lparr>user := data, loading := False\<rparr>)
   \<and> user (handleSubmit (Resolved \<lparr>status = st, json = Inr data\<rparr>) s) = data
   \<and> loading (handleSubmit (Resolved \<lparr>status = st, json = Inr data\<rparr>) s) = False
   \<and> console (handleSubmit (Resolved \<lparr>status = st, json = Inr data\<rparr>) s) = console s
   \<and> user (handleSubmit
        (Resolved \<lparr>status = 404, json = Inr (JObj [(''message'', JStr ''Not Found'')])\<rparr>)
        (initial\<lparr>userName := ''nobody'', user := JObj [(''name'', JStr ''Octo'')]\<rparr>))
       = JObj [(''message'', JStr ''Not Found'')]
   \<and> user (handleSubmit
        (Resolved \<lparr>status = 404, json = Inr (JObj [(''message'', JStr ''Not Found'')])\<rparr>)
        (initial\<lparr>userName := ''nobody'', user := JObj [(''name'', JStr ''Octo'')]\<rparr>))
       \<noteq> user (initial\<lparr>userName := ''nobody'', user := JObj [(''name'', JStr ''Octo'')]\<rparr>)"
  by (simp add: handler_defs)

text \<open>
  C10. No part of \<^verbatim>\<open>handleSubmit\<close> writes the query: it is the same after the handler
  has begun, after it has resumed, and after a whole submission, however the request
  settles.
\<close>

theorem C10_query_untouched:
  "userName (handleSubmit_begin s) = userName s
   \<and> userName (handleSubmit_settle outcome s) = userName s
   \<and> userName (handleSubmit outcome s) = userName s"
  by (simp add: handler_defs split: fetch_outcome.split sum.split)


subsection \<open>Rendering\<close>

text \<open>
  C5. While the loading flag is true, \<^verbatim>\<open>App\<close> returns the heading
  \<^verbatim>\<open>Loading...\<close> and nothing else: the tree has that one element, no form, no
  input, no button, no image, no embedded value, and binds no handler.
\<close>

theorem C5_loading_renders_only_indicator:
  assumes "loading s"
  shows "App s = Element ''h1'' [] [Text ''Loading...'']
    \<and> tags (App s) = [''h1'']
    \<and> texts (App s) = [''Loading...'']
    \<and> handlers (App s) = []
    \<and> exprs (App s) = []
    \<and> props_of ''form'' (App s) = []
    \<and> props_of ''input'' (App s) = []
    \<and> props_of ''button'' (App s) = []
    \<and> props_of ''img'' (App s) = []"
  using assms by (simp add: App_def)

theorem C5_loading_witness:
  "loading (handleSubmit_begin initial)
   \<and> App (handleSubmit_begin initial) = Element ''h1'' [] [Text ''Loading...'']
   \<and> tags (App (handleSubmit_begin initial)) = [''h1'']
   \<and> handlers (App (handleSubmit_begin initial)) = []"
proof -
  have h: "loading (handleSubmit_begin initial)"
    by (simp add: handler_defs)
  from C5_loading_renders_only_indicator [OF h] h show ?thesis by simp
qed

text \<open>
  C6. While the loading flag is false, \<^verbatim>\<open>App\<close> returns the form: one input whose
  value is the query and whose changes go to \<^verbatim>\<open>handleChange\<close>, and one button, in a
  form whose submission goes to \<^verbatim>\<open>handleSubmit\<close>. With no user stored
  (\<^verbatim>\<open>null\<close>) the tree has no further element. With a user stored that passes the
  test \<^verbatim>\<open>user &&\<close>, as every object does, a panel follows: a heading with the
  user's \<^verbatim>\<open>name\<close>, a paragraph with its \<^verbatim>\<open>bio\<close>, and an image whose source is
  its \<^verbatim>\<open>avatar_url\<close>.
\<close>

theorem C6_idle_renders_form_and_result:
  assumes "\<not> loading s"
  shows "take 4 (tags (App s)) = [''div'', ''form'', ''input'', ''button'']
    \<and> props_of ''form'' (App s) = [[On ''onSubmit'' HandleSubmit]]
    \<and> props_of ''input'' (App s) =
        [[Attr ''type'' (JStr ''text''), Attr ''placeholder'' (JStr ''Enter username''),
          Attr ''value'' (JStr (userName s)), On ''onChange'' HandleChange]]
    \<and> props_of ''button'' (App s) = [[]]
    \<and> texts (App s) = [''Search'']
    \<and> (user s = JNull \<longrightarrow>
          tags (App s) = [''div'', ''form'', ''input'', ''button'']
          \<and> exprs (App s) = [JNull])
    \<and> (truthy (user s) \<longrightarrow>
          drop 4 (tags (App s)) = [''div'', ''h1'', ''p'', ''img'']
          \<and> exprs (App s) = [get_prop (user s) ''name'', get_prop (user s) ''bio'']
          \<and> props_of ''img'' (App s) =
              [[Attr ''src'' (get_prop (user s) ''avatar_url''), Attr ''alt'' (JStr [])]])
    \<and> (\<forall>fs. user s = JObj fs \<longrightarrow> truthy (user s))"
  using assms by (simp add: App_def)

theorem C6_idle_witness:
  "\<not> loading (initial\<lparr>userName := ''octocat'', user := JObj
       [(''name'', JStr ''The Octocat''), (''avatar_url'', JStr ''u''),
        (''html_url'', JStr ''h''), (''bio'', JStr ''b'')]\<rparr>)
   \<and> drop 4 (tags (App (initial\<lparr>userName := ''octocat'', user := JObj
       [(''name'', JStr ''The Octocat''), (''avatar_url'', JStr ''u''),
        (''html_url'', JStr ''h''), (''bio'', JStr ''b'')]\<rparr>)))
       = [''div'', ''h1'', ''p'', ''img'']
   \<and> exprs (App (initial\<lparr>userName := ''octocat'', user := JObj
       [(''name'', JStr ''The Octocat''), (''avatar_url'', JStr ''u''),
        (''html_url'', JStr ''h''), (''bio'', JStr ''b'')]\<rparr>))
       = [JStr ''The Octocat'', JStr ''b'']
   \<and> props_of ''input'' (App (initial\<lparr>userName := ''octocat'', user := JObj
       [(''name'', JStr ''The Octocat''), (''avatar_url'', JStr ''u''),
        (''html_url'', JStr ''h''), (''bio'', JStr ''b'')]\<rparr>))
       = [[Attr ''type'' (JStr ''text''), Attr ''placeholder'' (JStr ''Enter username''),
           Attr ''value'' (JStr ''octocat''), On ''onChange'' HandleChange]]
   \<and> props_of ''img'' (App (initial\<lparr>userName := ''octocat'', user := JObj
       [(''name'', JStr ''The Octocat''), (''avatar_url'', JStr ''u''),
        (''html_url'', JStr ''h''), (''bio'', JStr ''b'')]\<rparr>))
       = [[Attr ''src'' (JStr ''u''), Attr ''alt'' (JStr [])]]"
proof -
  have h: "\<not> loading (initial\<lparr>userName := ''octocat'', user := JObj
       [(''name'', JStr ''The Octocat''), (''avatar_url'', JStr ''u''),
        (''html_url'', JStr ''h''), (''bio'', JStr ''b'')]\<rparr>)"
    by (simp add: initial_def)
  from C6_idle_renders_form_and_result [OF h] h show ?thesis by simp
qed




subsection \<open>The life of the loading flag\<close>




lemma pending_settle_unmounted: "pending (settle_unmounted outcome s) = pending s"
  by (simp add: settle_unmounted_def handler_defs split: fetch_outcome.split sum.split)























end
